theory Spec2Isabelle
  imports Complex_Main "HOL-Library.Log_Nat"
begin

section \<open>JavaScript numbers\<close>

text \<open>
  The numbers of \<^verbatim>\<open>src/App.tsx\<close> are JavaScript numbers: IEEE doubles. A finite
  number is the real number it denotes (the sign of zero is not represented); the three
  special values are kept, because the division of \<^verbatim>\<open>handleSubmitTest\<close> by
  \<^verbatim>\<open>questions.length\<close> has no guard and \<^verbatim>\<open>0 / 0\<close> is \<^verbatim>\<open>NaN\<close>.

  \<open>js_add\<close>, \<open>js_sub\<close>, \<open>js_mul\<close> and \<open>js_div\<close> give the exact result of an
  operation; \<open>double\<close> rounds a real number to the nearest double, and \<open>dbl_sub\<close>,
  \<open>dbl_mul\<close> and \<open>dbl_div\<close> are the operations of the machine, which round the exact
  result.
\<close>

datatype jsnum = NaN | PosInf | NegInf | Num real

fun js_add :: "jsnum \<Rightarrow> jsnum \<Rightarrow> jsnum" where
  "js_add NaN y = NaN"
| "js_add x NaN = NaN"
| "js_add PosInf NegInf = NaN"
| "js_add NegInf PosInf = NaN"
| "js_add PosInf y = PosInf"
| "js_add x PosInf = PosInf"
| "js_add NegInf y = NegInf"
| "js_add x NegInf = NegInf"
| "js_add (Num a) (Num b) = Num (a + b)"

fun js_sub :: "jsnum \<Rightarrow> jsnum \<Rightarrow> jsnum" where
  "js_sub NaN y = NaN"
| "js_sub x NaN = NaN"
| "js_sub PosInf PosInf = NaN"
| "js_sub NegInf NegInf = NaN"
| "js_sub PosInf y = PosInf"
| "js_sub x PosInf = NegInf"
| "js_sub NegInf y = NegInf"
| "js_sub x NegInf = PosInf"
| "js_sub (Num a) (Num b) = Num (a - b)"

fun js_mul :: "jsnum \<Rightarrow> jsnum \<Rightarrow> jsnum" where
  "js_mul NaN y = NaN"
| "js_mul x NaN = NaN"
| "js_mul PosInf PosInf = PosInf"
| "js_mul PosInf NegInf = NegInf"
| "js_mul NegInf PosInf = NegInf"
| "js_mul NegInf NegInf = PosInf"
| "js_mul PosInf (Num b) = (if b = 0 then NaN else if 0 < b then PosInf else NegInf)"
| "js_mul NegInf (Num b) = (if b = 0 then NaN else if 0 < b then NegInf else PosInf)"
| "js_mul (Num a) PosInf = (if a = 0 then NaN else if 0 < a then PosInf else NegInf)"
| "js_mul (Num a) NegInf = (if a = 0 then NaN else if 0 < a then NegInf else PosInf)"
| "js_mul (Num a) (Num b) = Num (a * b)"

fun js_div :: "jsnum \<Rightarrow> jsnum \<Rightarrow> jsnum" where
  "js_div NaN y = NaN"
| "js_div x NaN = NaN"
| "js_div PosInf PosInf = NaN"
| "js_div PosInf NegInf = NaN"
| "js_div NegInf PosInf = NaN"
| "js_div NegInf NegInf = NaN"
| "js_div PosInf (Num b) = (if 0 \<le> b then PosInf else NegInf)"
| "js_div NegInf (Num b) = (if 0 \<le> b then NegInf else PosInf)"
| "js_div (Num a) PosInf = Num 0"
| "js_div (Num a) NegInf = Num 0"
| "js_div (Num a) (Num b) =
     (if b = 0 then (if a = 0 then NaN else if 0 < a then PosInf else NegInf)
      else Num (a / b))"

text \<open>\<^verbatim>\<open>Math.round\<close> of a finite number: the nearest integer, a tie going up.\<close>

definition round_half_up :: "real \<Rightarrow> int" where
  "round_half_up x = \<lfloor>x + 1 / 2\<rfloor>"

fun Math_round :: "jsnum \<Rightarrow> jsnum" where
  "Math_round (Num x) = Num (of_int (round_half_up x))"
| "Math_round x = x"

fun Math_max :: "jsnum \<Rightarrow> jsnum \<Rightarrow> jsnum" where
  "Math_max NaN y = NaN"
| "Math_max x NaN = NaN"
| "Math_max PosInf y = PosInf"
| "Math_max x PosInf = PosInf"
| "Math_max NegInf y = y"
| "Math_max x NegInf = x"
| "Math_max (Num a) (Num b) = Num (max a b)"

text \<open>
  Rounding to the nearest double, a tie going to the even significand. \<open>binade a\<close> is
  the exponent \<open>e\<close> with \<open>2 ^ e \<le> a < 2 ^ (e + 1)\<close>, and not below \<open>-1022\<close>, where the
  subnormal numbers begin; a double of this binade is a multiple of \<open>2 ^ (e - 52)\<close>. A
  result of \<open>2 ^ 1024\<close> or more overflows to an infinity.
\<close>

definition pow2 :: "int \<Rightarrow> real" where
  "pow2 e = (if 0 \<le> e then 2 ^ nat e else 1 / 2 ^ nat (- e))"

definition binade :: "real \<Rightarrow> int" where
  "binade a =
     (if 1 \<le> a then bitlen \<lfloor>a\<rfloor> - 1 else max (- 1022) (- bitlen (\<lceil>1 / a\<rceil> - 1)))"

definition round_even :: "real \<Rightarrow> int" where
  "round_even r =
     (let f = \<lfloor>r\<rfloor>; d = r - of_int f
      in if d < 1 / 2 then f else if 1 / 2 < d then f + 1 else if even f then f else f + 1)"

definition double :: "real \<Rightarrow> jsnum" where
  "double x =
     (if x = 0 then Num 0
      else let a = \<bar>x\<bar>;
               e = binade a;
               m = round_even (a / pow2 (e - 52))
           in if 1023 < e \<or> (e = 1023 \<and> 2 ^ 53 \<le> m) then (if 0 < x then PosInf else NegInf)
              else Num (if 0 < x then of_int m * pow2 (e - 52) else - (of_int m * pow2 (e - 52))))"

fun dbl :: "jsnum \<Rightarrow> jsnum" where
  "dbl (Num x) = double x"
| "dbl x = x"

definition dbl_sub :: "jsnum \<Rightarrow> jsnum \<Rightarrow> jsnum" where
  "dbl_sub x y = dbl (js_sub x y)"

definition dbl_mul :: "jsnum \<Rightarrow> jsnum \<Rightarrow> jsnum" where
  "dbl_mul x y = dbl (js_mul x y)"

definition dbl_div :: "jsnum \<Rightarrow> jsnum \<Rightarrow> jsnum" where
  "dbl_div x y = dbl (js_div x y)"


text \<open>The comparisons \<^verbatim>\<open><\<close> and \<^verbatim>\<open>>\<close>: false whenever an operand is \<^verbatim>\<open>NaN\<close>.\<close>

fun js_lt :: "jsnum \<Rightarrow> jsnum \<Rightarrow> bool" where
  "js_lt NaN y = False"
| "js_lt x NaN = False"
| "js_lt PosInf y = False"
| "js_lt x NegInf = False"
| "js_lt NegInf y = True"
| "js_lt x PosInf = True"
| "js_lt (Num a) (Num b) = (a < b)"

definition js_gt :: "jsnum \<Rightarrow> jsnum \<Rightarrow> bool" where
  "js_gt x y = js_lt y x"

section \<open>Data model\<close>

text \<open>
  The interfaces of \<^verbatim>\<open>src/services/geminiService.ts\<close> and \<^verbatim>\<open>src/App.tsx\<close>. A field
  whose name is taken in Isabelle, or is used by two interfaces, carries a suffix:
  \<open>_q\<close> Question, \<open>_f\<close> feedback entry, \<open>_r\<close> AssessmentResult, \<open>_a\<close> TestAttempt,
  \<open>_p\<close> CodingProblem, \<open>_c\<close> Contest, \<open>_g\<close> the reply of the gap analysis.
  Counters and lengths are natural numbers: registration creates them as 0 and the only
  writer adds 1.
\<close>

datatype Difficulty = BEGINNER | ADVANCED | EXPERT

datatype Role = STUDENT | ADMIN

record Question =
  id_q :: string
  text_q :: string
  options :: "string \<times> string \<times> string \<times> string"
  correctAnswer :: string
  explanation :: string
  subject :: string
  type_q :: string

text \<open>
  \<^verbatim>\<open>answers\<close> is a plain object, \<^verbatim>\<open>Record<string, string>\<close>: a map from question ids
  to the answers selected, its own properties. Reading \<^verbatim>\<open>answers[k]\<close> gives the own
  property \<open>k\<close> when there is one; otherwise the member \<open>k\<close> that every plain object
  inherits from \<^verbatim>\<open>Object.prototype\<close>, when \<open>k\<close> names one (a function, or the prototype
  itself for \<^verbatim>\<open>__proto__\<close>); otherwise \<^verbatim>\<open>undefined\<close>.
\<close>

datatype jsval = Undefined | Str string | Inherited string

definition Object_prototype_names :: "string list" where
  "Object_prototype_names =
     [''constructor'', ''__defineGetter__'', ''__defineSetter__'', ''hasOwnProperty'',
      ''__lookupGetter__'', ''__lookupSetter__'', ''isPrototypeOf'', ''propertyIsEnumerable'',
      ''toString'', ''valueOf'', ''__proto__'', ''toLocaleString'']"

definition get_property :: "(string \<rightharpoonup> string) \<Rightarrow> string \<Rightarrow> jsval" where
  "get_property obj k =
     (case obj k of
        Some v \<Rightarrow> Str v
      | None \<Rightarrow> if k \<in> set Object_prototype_names then Inherited k else Undefined)"

text \<open>\<open>selectedAnswer\<close> holds \<^verbatim>\<open>answers[q.id]\<close>, whatever that is.\<close>

record Feedback =
  questionId :: string
  isCorrect :: bool
  selectedAnswer :: jsval
  correctAnswer_f :: string
  explanation_f :: string

type_synonym Recommendation = "string \<times> (string \<times> string) list"

record AssessmentResult =
  score :: real
  total :: real
  feedback :: "Feedback list"
  weakAreas_r :: "string list"
  recommendations :: "Recommendation list"

record TestAttempt =
  date :: string
  subjects_a :: "string list"
  level_a :: Difficulty
  score_a :: jsnum
  totalQuestions :: nat
  weakAreas_a :: "string list"
  attemptNumber :: nat

record UserStats =
  name :: string
  email :: string
  password :: "string option"
  role :: Role
  level :: Difficulty
  badges :: "string list"
  totalTests :: nat
  highestScore :: jsnum
  averageScore :: jsnum
  beginnerAttempts :: nat
  advancedAttempts :: nat
  expertAttempts :: nat
  lastScores :: "jsnum list"
  weakAreas :: "string list"
  placementReady :: bool
  attempts :: "TestAttempt list option"

datatype AppState =
  Auth | Dashboard | Admin_dashboard | Subject_selection | Study_notes | Detailed_info
| External_resources | Test_intro | Testing | Results | Review | Certificate
| Admin_create_contest | Practice_ide | Contest_lobby | Contest_active

record CodingProblem =
  id_p :: string
  title_p :: string
  description :: string
  constraints :: string
  inputFormat :: string
  outputFormat :: string
  sampleInput :: string
  sampleOutput :: string
  initialCode :: "(string \<times> string) list"
  testCases :: "(string \<times> string) list"

record Contest =
  id_c :: string
  title :: string
  startTime :: string
  duration :: int
  subjects_c :: "string list"
  problems :: "CodingProblem list"

text \<open>
  The calls of \<^verbatim>\<open>alert\<close>, by message:
  \<^item> \<open>Max_tab_switches\<close>: "Maximum tab switches reached. Contest submitted automatically."
  \<^item> \<open>Max_screen_off\<close>: "Maximum screen off/tab switch reached. Contest submitted automatically."
  \<^item> \<open>Warn_tab_switch k\<close>: "Warning: Tab switch detected. k chances left."
  \<^item> \<open>Warn_screen_off k\<close>: "Warning: Screen off/Tab switch detected. k chances left."
  \<^item> \<open>Not_started t\<close>: "Contest hasn't started yet. Starts at t"
  \<^item> \<open>Already_ended\<close>: "Contest has already ended."
  \<^item> \<open>Contest_submitted\<close>: "Contest submitted successfully! Your results will be analyzed."
\<close>

datatype Alert =
  Max_tab_switches
| Max_screen_off
| Warn_tab_switch int
| Warn_screen_off int
| Not_started string
| Already_ended
| Contest_submitted

text \<open>
  The state of the component \<^verbatim>\<open>App\<close> that the handlers below read or write.
  \<open>coach_users\<close> is the entry of that name in \<^verbatim>\<open>localStorage\<close>, held as the parsed
  object (\<open>None\<close> when the key is absent); its JSON text is not represented.
  \<open>alerts\<close> is the log of the messages shown by \<^verbatim>\<open>alert\<close>, oldest first.
  \<open>listening\<close> tells whether the \<^verbatim>\<open>visibilitychange\<close> and \<^verbatim>\<open>blur\<close> listeners of
  the anti-cheating effect are attached.
\<close>

record app =
  user :: "UserStats option"
  appState :: AppState
  questions :: "Question list"
  answers :: "string \<rightharpoonup> string"
  difficulty :: Difficulty
  selectedSubjects :: "string list"
  isLoading :: bool
  results :: "AssessmentResult option"
  coach_users :: "(string \<rightharpoonup> UserStats) option"
  activeContest :: "Contest option"
  contestProblems :: "CodingProblem list"
  contestTimeLeft :: jsnum
  tabSwitches :: nat
  currentProblemIndex :: int
  alerts :: "Alert list"
  listening :: bool

section \<open>Gap analysis\<close>

text \<open>
  What \<^verbatim>\<open>ai.models.generateContent\<close> does inside \<^verbatim>\<open>analyzeGaps\<close>: the request is
  rejected (the promise throws), or its text does not parse, or it parses to an object.
  \<^verbatim>\<open>analyzeGaps\<close> returns \<^verbatim>\<open>{ ...results, ...analysis }\<close>: each key of
  \<^verbatim>\<open>AssessmentResult\<close> that the object holds replaces the value of the result, so the
  object is kept as the optional value of each of the five keys, with the types of the
  interface. The response schema asks for \<^verbatim>\<open>weakAreas\<close> and \<^verbatim>\<open>recommendations\<close>. An
  empty text is read as \<^verbatim>\<open>{}\<close>, which holds no key.
\<close>

record GapAnalysis =
  score_g :: "real option"
  total_g :: "real option"
  feedback_g :: "Feedback list option"
  weakAreas_g :: "string list option"
  recommendations_g :: "Recommendation list option"

datatype GapReply =
  Rejected
| Unparseable
| Analysis GapAnalysis

text \<open>\<open>None\<close> is the rejected promise of \<^verbatim>\<open>analyzeGaps\<close>.\<close>

definition analyzeGaps :: "GapReply \<Rightarrow> AssessmentResult \<Rightarrow> AssessmentResult option" where
  "analyzeGaps reply res =
     (if score res = total res then Some (res\<lparr>weakAreas_r := [], recommendations := []\<rparr>)
      else case reply of
        Rejected \<Rightarrow> None
      | Unparseable \<Rightarrow> Some res
      | Analysis g \<Rightarrow>
          Some \<lparr> score = (case score_g g of None \<Rightarrow> score res | Some v \<Rightarrow> v),
                 total = (case total_g g of None \<Rightarrow> total res | Some v \<Rightarrow> v),
                 feedback = (case feedback_g g of None \<Rightarrow> feedback res | Some v \<Rightarrow> v),
                 weakAreas_r = (case weakAreas_g g of None \<Rightarrow> weakAreas_r res | Some v \<Rightarrow> v),
                 recommendations =
                   (case recommendations_g g of None \<Rightarrow> recommendations res | Some v \<Rightarrow> v) \<rparr>)"

section \<open>Submitting an assessment\<close>

text \<open>\<^verbatim>\<open>questions.reduce((acc, q) => acc + (answers[q.id] === q.correctAnswer ? 1 : 0), 0)\<close>\<close>

definition compute_score :: "Question list \<Rightarrow> (string \<rightharpoonup> string) \<Rightarrow> nat" where
  "compute_score qs ans =
     foldl (\<lambda>acc q. acc + (if get_property ans (id_q q) = Str (correctAnswer q) then 1 else 0))
       0 qs"

text \<open>\<^verbatim>\<open>Math.round((score / questions.length) * 100)\<close>\<close>

definition compute_percentage :: "nat \<Rightarrow> nat \<Rightarrow> jsnum" where
  "compute_percentage sc len =
     Math_round (dbl_mul (dbl_div (Num (of_nat sc)) (Num (of_nat len))) (Num 100))"

definition initialResults :: "Question list \<Rightarrow> (string \<rightharpoonup> string) \<Rightarrow> AssessmentResult" where
  "initialResults qs ans =
     \<lparr> score = of_nat (compute_score qs ans),
       total = of_nat (length qs),
       feedback = map (\<lambda>q. \<lparr> questionId = id_q q,
                              isCorrect = (get_property ans (id_q q) = Str (correctAnswer q)),
                              selectedAnswer = get_property ans (id_q q),
                              correctAnswer_f = correctAnswer q,
                              explanation_f = explanation q \<rparr>) qs,
       weakAreas_r = [],
       recommendations = [] \<rparr>"

text \<open>
  \<^verbatim>\<open>Array.from(new Set(xs))\<close>: a Set keeps its elements in insertion order and ignores
  the insertion of an element it holds.
\<close>

definition Set_insert :: "'a list \<Rightarrow> 'a \<Rightarrow> 'a list" where
  "Set_insert s x = (if x \<in> set s then s else s @ [x])"

definition Array_from_Set :: "'a list \<Rightarrow> 'a list" where
  "Array_from_Set xs = foldl Set_insert [] xs"

text \<open>
  The block \<^verbatim>\<open>if (user) { ... }\<close> of \<^verbatim>\<open>handleSubmitTest\<close>, up to \<^verbatim>\<open>setUser\<close>: the
  progression update. \<open>now\<close> is \<^verbatim>\<open>new Date().toLocaleString()\<close>, \<open>found\<close> is
  \<^verbatim>\<open>analyzed.weakAreas\<close>, \<open>n\<close> is \<^verbatim>\<open>questions.length\<close>. \<^verbatim>\<open>updatedStats\<close> is a shallow
  copy of \<^verbatim>\<open>user\<close>, so \<^verbatim>\<open>push\<close> appends to the one badge array both share. The
  average divides an integer by a counter and rounds the quotient at once; it is written
  with the exact operations.
\<close>

definition updateStats ::
  "string \<Rightarrow> string list \<Rightarrow> Difficulty \<Rightarrow> jsnum \<Rightarrow> nat \<Rightarrow> string list \<Rightarrow> UserStats \<Rightarrow> UserStats" where
  "updateStats now subjects diff percentage n found usr =
     (let oldTotal = totalTests usr;
          newTotal = oldTotal + 1;
          u1 = usr\<lparr> totalTests := newTotal,
                    highestScore := Math_max (highestScore usr) percentage,
                    lastScores := take 5 (percentage # lastScores usr),
                    averageScore :=
                      Math_round (js_div (js_add (js_mul (averageScore usr) (Num (of_nat oldTotal)))
                                                 percentage)
                                         (Num (of_nat newTotal))) \<rparr>;
          u2 = (if diff = BEGINNER then u1\<lparr>beginnerAttempts := beginnerAttempts u1 + 1\<rparr> else u1);
          u3 = (if diff = ADVANCED then u2\<lparr>advancedAttempts := advancedAttempts u2 + 1\<rparr> else u2);
          u4 = (if diff = EXPERT then u3\<lparr>expertAttempts := expertAttempts u3 + 1\<rparr> else u3);
          u5 = u4\<lparr>weakAreas := take 10 (Array_from_Set (weakAreas usr @ found))\<rparr>;
          newAttempt = \<lparr> date = now, subjects_a = subjects, level_a = diff,
                         score_a = percentage, totalQuestions = n, weakAreas_a = found,
                         attemptNumber = totalTests u5 \<rparr>;
          u6 = u5\<lparr>attempts :=
                    Some (newAttempt # (case attempts usr of None \<Rightarrow> [] | Some as \<Rightarrow> as))\<rparr>
      in if percentage = Num 100 then
           (if diff = BEGINNER \<and> ''Beginner Champion'' \<notin> set (badges usr) then
              u6\<lparr>badges := badges u6 @ [''Beginner Champion''], level := ADVANCED\<rparr>
            else if diff = ADVANCED \<and> ''Advanced Master'' \<notin> set (badges usr) then
              u6\<lparr>badges := badges u6 @ [''Advanced Master''], level := EXPERT\<rparr>
            else if diff = EXPERT \<and> ''Expert Legend'' \<notin> set (badges usr) then
              u6\<lparr>badges := badges u6 @ [''Expert Legend''], placementReady := True\<rparr>
            else u6)
         else u6)"

text \<open>
  \<^verbatim>\<open>handleSubmitTest\<close>. The \<^verbatim>\<open>catch\<close> clause runs when \<^verbatim>\<open>analyzeGaps\<close> throws; the
  \<^verbatim>\<open>finally\<close> clause clears \<open>isLoading\<close> on both paths.
\<close>

definition handleSubmitTest :: "string \<Rightarrow> GapReply \<Rightarrow> app \<Rightarrow> app" where
  "handleSubmitTest now reply s =
     (let s1 = s\<lparr>isLoading := True, appState := Results\<rparr>;
          sc = compute_score (questions s) (answers s);
          percentage = compute_percentage sc (length (questions s));
          initial = initialResults (questions s) (answers s)
      in case analyzeGaps reply initial of
           Some analyzed \<Rightarrow>
             (let s2 = s1\<lparr>results := Some analyzed\<rparr>
              in case user s of
                   Some usr \<Rightarrow>
                     (let updatedStats = updateStats now (selectedSubjects s) (difficulty s)
                                           percentage (length (questions s))
                                           (weakAreas_r analyzed) usr
                      in s2\<lparr> user := Some updatedStats,
                              coach_users :=
                                (case coach_users s of
                                   None \<Rightarrow> None
                                 | Some users \<Rightarrow> Some (users(email usr \<mapsto> updatedStats))),
                              isLoading := False \<rparr>)
                 | None \<Rightarrow> s2\<lparr>isLoading := False\<rparr>)
         | None \<Rightarrow> s1\<lparr>results := Some initial, isLoading := False\<rparr>)"

section \<open>Contests\<close>

text \<open>
  The line \<^verbatim>\<open>const diff = (now.getTime() - start.getTime()) / 1000 / 60\<close> of
  \<^verbatim>\<open>handleJoinContest\<close>: the minutes since the start of the contest. \<open>now\<close> is
  \<^verbatim>\<open>new Date().getTime()\<close>, in milliseconds, an integer that is a double; \<open>start\<close> is
  \<^verbatim>\<open>new Date(contest.startTime).getTime()\<close>, which is \<^verbatim>\<open>NaN\<close> when the string is not a
  date.
\<close>

definition elapsed_minutes :: "int \<Rightarrow> jsnum \<Rightarrow> jsnum" where
  "elapsed_minutes now start =
     dbl_div (dbl_div (dbl_sub (Num (of_int now)) start) (Num 1000)) (Num 60)"

text \<open>The value \<^verbatim>\<open>(contest.duration - diff) * 60\<close>: the seconds that remain.\<close>

definition remaining_seconds :: "Contest \<Rightarrow> jsnum \<Rightarrow> jsnum" where
  "remaining_seconds contest diff =
     dbl_mul (dbl_sub (Num (of_int (duration contest))) diff) (Num 60)"

text \<open>\<^verbatim>\<open>handleJoinContest\<close>.\<close>

definition handleJoinContest :: "int \<Rightarrow> jsnum \<Rightarrow> Contest \<Rightarrow> app \<Rightarrow> app" where
  "handleJoinContest now start contest s =
     (let diff = elapsed_minutes now start
      in if js_lt diff (Num 0) then
           s\<lparr>alerts := alerts s @ [Not_started (startTime contest)]\<rparr>
         else if js_gt diff (Num (of_int (duration contest))) then
           s\<lparr>alerts := alerts s @ [Already_ended]\<rparr>
         else
           s\<lparr> activeContest := Some contest,
              contestProblems := problems contest,
              contestTimeLeft := Math_round (remaining_seconds contest diff),
              appState := Contest_active,
              tabSwitches := 0,
              currentProblemIndex := 0 \<rparr>)"

definition handleSubmitContest :: "app \<Rightarrow> app" where
  "handleSubmitContest s = s\<lparr>appState := Dashboard, alerts := alerts s @ [Contest_submitted]\<rparr>"

text \<open>
  The two listeners of the anti-cheating effect. Each runs the updater passed to
  \<^verbatim>\<open>setTabSwitches\<close> once, as one step; \<open>hidden\<close> is \<^verbatim>\<open>document.hidden\<close>.
\<close>

definition handleVisibilityChange :: "bool \<Rightarrow> app \<Rightarrow> app" where
  "handleVisibilityChange hidden s =
     (if hidden then
        (let newVal = tabSwitches s + 1;
             s1 = (if newVal \<ge> 3 then
                     handleSubmitContest (s\<lparr>alerts := alerts s @ [Max_tab_switches]\<rparr>)
                   else s\<lparr>alerts := alerts s @ [Warn_tab_switch (3 - int newVal)]\<rparr>)
         in s1\<lparr>tabSwitches := newVal\<rparr>)
      else s)"

definition handleBlur :: "app \<Rightarrow> app" where
  "handleBlur s =
     (let newVal = tabSwitches s + 1;
          s1 = (if newVal \<ge> 3 then
                  handleSubmitContest (s\<lparr>alerts := alerts s @ [Max_screen_off]\<rparr>)
                else s\<lparr>alerts := alerts s @ [Warn_screen_off (3 - int newVal)]\<rparr>)
      in s1\<lparr>tabSwitches := newVal\<rparr>)"

text \<open>
  The anti-cheating effect depends on \<open>appState\<close>: after a render that follows a change
  of \<open>appState\<close>, its cleanup removes the listeners and the effect adds them again when
  \<open>appState\<close> is \<^verbatim>\<open>'contest-active'\<close>. The handlers themselves do not test \<open>appState\<close>:
  until that render, an event still reaches them. \<open>Render\<close> is the render with its
  effects; the other two events reach a handler while the listeners are attached.
\<close>

datatype Event = Visibilitychange bool | Blur | Render

fun dispatch :: "app \<Rightarrow> Event \<Rightarrow> app" where
  "dispatch s (Visibilitychange hidden) =
     (if listening s then handleVisibilityChange hidden s else s)"
| "dispatch s Blur = (if listening s then handleBlur s else s)"
| "dispatch s Render = s\<lparr>listening := (appState s = Contest_active)\<rparr>"

definition dispatch_all :: "app \<Rightarrow> Event list \<Rightarrow> app" where
  "dispatch_all s es = foldl dispatch s es"

text \<open>How often \<^verbatim>\<open>handleSubmitContest\<close> has run: each run shows its message once.\<close>

definition submissions :: "app \<Rightarrow> nat" where
  "submissions s = length [a\<leftarrow>alerts s. a = Contest_submitted]"

section \<open>Deduplication\<close>

text \<open>
  A list without its duplicates, each element at its first occurrence: what
  "deduplicated" means for a list whose order matters.
\<close>

definition first_occurrences :: "'a list \<Rightarrow> 'a list" where
  "first_occurrences xs = rev (remdups (rev xs))"

section \<open>A sequence of completed assessments\<close>

text \<open>
  A completed assessment, as far as the progression update reads it: the date, the
  subjects, the difficulty, the percentage (here an integer), the number of questions and
  the weak areas found. \<open>complete_all\<close> applies the update once per assessment, oldest
  first. \<open>mean\<close> is the arithmetic mean.
\<close>

type_synonym Assessment = "string \<times> string list \<times> Difficulty \<times> int \<times> nat \<times> string list"

fun complete :: "UserStats \<Rightarrow> Assessment \<Rightarrow> UserStats" where
  "complete usr (now, subjs, d, pct, n, found) =
     updateStats now subjs d (Num (of_int pct)) n found usr"

fun percentage_of :: "Assessment \<Rightarrow> int" where
  "percentage_of (now, subjs, d, pct, n, found) = pct"

definition complete_all :: "UserStats \<Rightarrow> Assessment list \<Rightarrow> UserStats" where
  "complete_all usr as = foldl complete usr as"

definition mean :: "int list \<Rightarrow> real" where
  "mean ps = of_int (sum_list ps) / of_nat (length ps)"

section \<open>Registration and the initial state\<close>

text \<open>The object \<^verbatim>\<open>newUser\<close> that \<^verbatim>\<open>handleAuth\<close> stores for a registration.\<close>

definition newUser :: "string \<Rightarrow> string \<Rightarrow> string \<Rightarrow> Role \<Rightarrow> UserStats" where
  "newUser nm em pw finalRole =
     \<lparr> name = nm, email = em, password = Some pw, role = finalRole, level = BEGINNER,
       badges = [], totalTests = 0, highestScore = Num 0, averageScore = Num 0,
       beginnerAttempts = 0, advancedAttempts = 0, expertAttempts = 0, lastScores = [],
       weakAreas = [], placementReady = False, attempts = None \<rparr>"

text \<open>The initial values of the \<^verbatim>\<open>useState\<close> hooks, with an empty \<^verbatim>\<open>localStorage\<close>.\<close>

definition initial_app :: app where
  "initial_app =
     \<lparr> user = None, appState = Auth, questions = [], answers = Map.empty,
       difficulty = BEGINNER, selectedSubjects = [], isLoading = False, results = None,
       coach_users = None, activeContest = None, contestProblems = [],
       contestTimeLeft = Num (120 * 60), tabSwitches = 0, currentProblemIndex = 0,
       alerts = [], listening = False \<rparr>"

text \<open>The badge that the progression logic of \<^verbatim>\<open>handleSubmitTest\<close> pairs with each
  difficulty.\<close>

definition tier_badge :: "Difficulty \<Rightarrow> string" where
  "tier_badge d = (case d of BEGINNER \<Rightarrow> ''Beginner Champion''
                     | ADVANCED \<Rightarrow> ''Advanced Master''
                     | EXPERT \<Rightarrow> ''Expert Legend'')"

section \<open>Example data\<close>

text \<open>Accounts and component states on which the properties below are evaluated.\<close>

definition example_question :: "string \<Rightarrow> Question" where
  "example_question i =
     \<lparr> id_q = i, text_q = ''Which structure is first in, first out?'',
       options = (''Queue'', ''Stack'', ''Heap'', ''Trie''), correctAnswer = ''A'',
       explanation = ''A queue serves its elements in arrival order.'', subject = ''DSA'',
       type_q = ''Theory'' \<rparr>"

definition example_user :: UserStats where
  "example_user = newUser ''Asha'' ''asha@example.org'' ''secret'' STUDENT"

definition example_app :: app where
  "example_app =
     initial_app\<lparr> user := Some example_user, appState := Testing,
                  coach_users := Some [''asha@example.org'' \<mapsto> example_user] \<rparr>"

definition perfect_app :: app where
  "perfect_app =
     example_app\<lparr> questions := replicate 100 (example_question ''q1''),
                  answers := [''q1'' \<mapsto> ''A''] \<rparr>"

definition legend_user :: UserStats where
  "legend_user =
     example_user\<lparr> level := EXPERT,
                   badges := [''Beginner Champion'', ''Advanced Master'', ''Expert Legend''],
                   placementReady := True \<rparr>"

definition legend_app :: app where
  "legend_app = example_app\<lparr>user := Some legend_user, difficulty := EXPERT\<rparr>"

definition failing_app :: app where
  "failing_app =
     example_app\<lparr>questions := [example_question ''q1''], answers := [''q1'' \<mapsto> ''B'']\<rparr>"

definition ten_areas_user :: UserStats where
  "ten_areas_user =
     example_user\<lparr>weakAreas := [''Pointers'', ''Recursion'', ''Sorting'', ''Hashing'', ''Trees'',
                                  ''SQL Joins'', ''Deadlocks'', ''Paging'', ''TCP'', ''Closures'']\<rparr>"

definition example_contest :: Contest where
  "example_contest =
     \<lparr> id_c = ''k3x9q2m1z'', title = ''Weekly Coding Challenge #1'',
       startTime = ''2026-01-01T10:00'', duration = 120, subjects_c = [''DSA''],
       problems = [] \<rparr>"

definition active_app :: app where
  "active_app =
     dispatch (handleJoinContest 1767261600100 (Num 1767261600000) example_contest example_app)
       Render"

definition expert_session_app :: app where
  "expert_session_app = perfect_app\<lparr>difficulty := EXPERT\<rparr>"

definition prototype_app :: app where
  "prototype_app =
     example_app\<lparr> questions := map example_question
                                 [''q1'', ''q2'', ''q3'', ''q4'', ''q5'', ''q6'', ''q7'', ''q8'', ''q9'',
                                  ''constructor''],
                  answers := [''q1'' \<mapsto> ''A'', ''q2'' \<mapsto> ''A'', ''q3'' \<mapsto> ''A'', ''q4'' \<mapsto> ''A'',
                              ''q5'' \<mapsto> ''A'', ''q6'' \<mapsto> ''A'', ''q7'' \<mapsto> ''A''] \<rparr>"

section \<open>Numbers\<close>

lemma js_add_NaN_right: "js_add x NaN = NaN"
  by (cases x) simp_all

lemma Math_max_NaN_right: "Math_max x NaN = NaN"
  by (cases x) simp_all

lemma round_half_up_of_int: "round_half_up (of_int k) = k"
  by (simp add: round_half_up_def)

lemma double_1: "double 1 = Num 1"
  by code_simp

lemma double_100: "double 100 = Num 100"
  by code_simp

lemma compute_percentage_empty: "compute_percentage sc 0 = (if sc = 0 then NaN else PosInf)"
  by (simp add: compute_percentage_def dbl_div_def dbl_mul_def)

lemma compute_percentage_perfect: "0 < n \<Longrightarrow> compute_percentage n n = Num 100"
  by (simp add: compute_percentage_def dbl_div_def dbl_mul_def double_1 double_100
      round_half_up_def)

text \<open>The rounding of the quotient shows: 23 of 40 is 57.5 exactly and 57 for the machine.\<close>

lemma compute_percentage_23_40: "compute_percentage 23 40 = Num 57"
  by code_simp


lemma round_half_up_div:
  assumes "0 < m"
  shows "round_half_up (of_int x / of_int m) = (2 * x + m) div (2 * m)"
proof -
  have "of_int x / of_int m + 1 / 2 = (of_int (2 * x + m) :: real) / of_int (2 * m)"
    using assms by (simp add: field_simps)
  then show ?thesis
    unfolding round_half_up_def by (simp only: floor_divide_of_int_eq)
qed

lemma round_half_up_div_bound:
  assumes "0 < m"
  shows "\<bar>2 * (m * round_half_up (of_int x / of_int m) - x)\<bar> \<le> m"
proof -
  define q where "q = (2 * x + m) div (2 * m)"
  define r where "r = (2 * x + m) mod (2 * m)"
  define mq where "mq = m * q"
  define t where "t = q * (2 * m)"
  have "t + r = 2 * x + m"
    unfolding t_def q_def r_def by (rule div_mult_mod_eq)
  moreover have "t = 2 * mq"
    by (simp add: t_def mq_def)
  moreover have "0 \<le> r" "r < 2 * m"
    unfolding r_def using assms by simp_all
  ultimately have "\<bar>2 * (mq - x)\<bar> \<le> m"
    by arith
  then show ?thesis
    using round_half_up_div [OF assms, of x] by (simp add: q_def mq_def)
qed

section \<open>The progression update, field by field\<close>

lemma updateStats_totalTests:
  "totalTests (updateStats now subjs d p n found usr) = totalTests usr + 1"
  by (simp add: updateStats_def Let_def)

lemma updateStats_averageScore:
  "averageScore (updateStats now subjs d p n found usr) =
     Math_round (js_div (js_add (js_mul (averageScore usr) (Num (of_nat (totalTests usr)))) p)
                        (Num (of_nat (totalTests usr + 1))))"
  by (simp add: updateStats_def Let_def)

lemma updateStats_highestScore:
  "highestScore (updateStats now subjs d p n found usr) = Math_max (highestScore usr) p"
  by (simp add: updateStats_def Let_def)

lemma updateStats_lastScores:
  "lastScores (updateStats now subjs d p n found usr) = take 5 (p # lastScores usr)"
  by (simp add: updateStats_def Let_def)

lemma updateStats_weakAreas:
  "weakAreas (updateStats now subjs d p n found usr) =
     take 10 (Array_from_Set (weakAreas usr @ found))"
  by (simp add: updateStats_def Let_def)

lemma updateStats_placementReady:
  "placementReady usr \<Longrightarrow> placementReady (updateStats now subjs d p n found usr)"
  by (simp add: updateStats_def Let_def)

lemma updateStats_not_perfect:
  "p \<noteq> Num 100 \<Longrightarrow>
   badges (updateStats now subjs d p n found usr) = badges usr \<and>
   level (updateStats now subjs d p n found usr) = level usr \<and>
   placementReady (updateStats now subjs d p n found usr) = placementReady usr"
  by (simp add: updateStats_def Let_def)

lemma updateStats_badge_held:
  "tier_badge d \<in> set (badges usr) \<Longrightarrow>
   badges (updateStats now subjs d p n found usr) = badges usr \<and>
   level (updateStats now subjs d p n found usr) = level usr \<and>
   placementReady (updateStats now subjs d p n found usr) = placementReady usr"
  by (cases d) (simp_all add: updateStats_def Let_def tier_badge_def)

lemma updateStats_distinct_badges:
  "distinct (badges usr) \<Longrightarrow> distinct (badges (updateStats now subjs d p n found usr))"
  by (simp add: updateStats_def Let_def)

lemma updateStats_expert_all_badges:
  assumes "set [''Beginner Champion'', ''Advanced Master'', ''Expert Legend''] \<subseteq> set (badges usr)"
    and "level usr = EXPERT"
  shows "badges (updateStats now subjs EXPERT p n found usr) = badges usr \<and>
         level (updateStats now subjs EXPERT p n found usr) = EXPERT"
proof -
  have "tier_badge EXPERT \<in> set (badges usr)"
    using assms(1) by (simp add: tier_badge_def)
  then show ?thesis
    using updateStats_badge_held [of EXPERT usr now subjs p n found] assms(2) by simp
qed

lemma updateStats_NaN:
  "averageScore (updateStats now subjs d NaN n found usr) = NaN \<and>
   highestScore (updateStats now subjs d NaN n found usr) = NaN \<and>
   lastScores (updateStats now subjs d NaN n found usr) = NaN # take 4 (lastScores usr)"
  by (simp add: updateStats_averageScore updateStats_highestScore updateStats_lastScores
      js_add_NaN_right Math_max_NaN_right)

section \<open>The outcome of a submission, field by field\<close>

lemma foldl_score:
  "foldl (\<lambda>acc q. acc + (if P q then 1 else 0)) (k::nat) qs = k + length (filter P qs)"
  by (induction qs arbitrary: k) simp_all

lemma get_property_Str: "get_property obj k = Str v \<longleftrightarrow> obj k = Some v"
  by (simp add: get_property_def split: option.splits)

lemma compute_score_filter:
  "compute_score qs ans = length [q\<leftarrow>qs. ans (id_q q) = Some (correctAnswer q)]"
  by (simp add: compute_score_def foldl_score get_property_Str)

lemma compute_score_le: "compute_score qs ans \<le> length qs"
  by (simp add: compute_score_filter)

lemma compute_score_Nil: "compute_score [] ans = 0"
  by (simp add: compute_score_def)

lemma length_filter_imp:
  "(\<And>x. P x \<Longrightarrow> Q x) \<Longrightarrow> length (filter P xs) \<le> length (filter Q xs)"
  by (induction xs) simp_all

lemma compute_score_answered:
  "compute_score qs ans \<le> length [q\<leftarrow>qs. ans (id_q q) \<noteq> None]"
  unfolding compute_score_filter by (rule length_filter_imp) simp

lemma analyzeGaps_perfect:
  "score res = total res \<Longrightarrow>
   analyzeGaps reply res = Some (res\<lparr>weakAreas_r := [], recommendations := []\<rparr>)"
  by (simp add: analyzeGaps_def)

lemma analyzeGaps_Rejected:
  "score res \<noteq> total res \<Longrightarrow> analyzeGaps Rejected res = None"
  by (simp add: analyzeGaps_def)

lemma initialResults_fields:
  "score (initialResults qs ans) = of_nat (compute_score qs ans)"
  "total (initialResults qs ans) = of_nat (length qs)"
  "weakAreas_r (initialResults qs ans) = []"
  by (simp_all add: initialResults_def)

lemma initialResults_feedback:
  "i < length qs \<Longrightarrow>
   selectedAnswer (feedback (initialResults qs ans) ! i) = get_property ans (id_q (qs ! i)) \<and>
   isCorrect (feedback (initialResults qs ans) ! i) = (ans (id_q (qs ! i)) = Some (correctAnswer (qs ! i)))"
  by (simp add: initialResults_def get_property_Str)

lemma handleSubmitTest_user:
  "user s = Some usr \<Longrightarrow>
   user (handleSubmitTest now reply s) =
     (case analyzeGaps reply (initialResults (questions s) (answers s)) of
        None \<Rightarrow> Some usr
      | Some analyzed \<Rightarrow>
          Some (updateStats now (selectedSubjects s) (difficulty s)
                  (compute_percentage (compute_score (questions s) (answers s)) (length (questions s)))
                  (length (questions s)) (weakAreas_r analyzed) usr))"
  by (simp add: handleSubmitTest_def Let_def split: option.splits)

lemma handleSubmitTest_results:
  "results (handleSubmitTest now reply s) =
     (case analyzeGaps reply (initialResults (questions s) (answers s)) of
        None \<Rightarrow> Some (initialResults (questions s) (answers s))
      | Some analyzed \<Rightarrow> Some analyzed)"
  by (simp add: handleSubmitTest_def Let_def split: option.splits)

lemma handleSubmitTest_difficulty: "difficulty (handleSubmitTest now reply s) = difficulty s"
  by (simp add: handleSubmitTest_def Let_def split: option.splits)

lemma handleSubmitTest_done:
  "appState (handleSubmitTest now reply s) = Results \<and> \<not> isLoading (handleSubmitTest now reply s)"
  by (simp add: handleSubmitTest_def Let_def split: option.splits)

lemma handleSubmitTest_badge_held:
  assumes "user s = Some usr" and "tier_badge (difficulty s) \<in> set (badges usr)"
  shows "\<exists>usr'. user (handleSubmitTest now reply s) = Some usr' \<and>
              badges usr' = badges usr \<and> level usr' = level usr"
  using assms
  by (simp add: handleSubmitTest_user updateStats_badge_held split: option.splits)

lemma handleSubmitTest_Rejected:
  assumes "compute_score (questions s) (answers s) \<noteq> length (questions s)"
  shows "handleSubmitTest now Rejected s =
         s\<lparr>isLoading := False, appState := Results,
           results := Some (initialResults (questions s) (answers s))\<rparr>"
proof -
  have "analyzeGaps Rejected (initialResults (questions s) (answers s)) = None"
    using assms by (simp add: analyzeGaps_Rejected initialResults_fields)
  then show ?thesis
    by (simp add: handleSubmitTest_def Let_def)
qed

lemma handleSubmitTest_Unparseable:
  assumes "user s = Some usr"
  shows "user (handleSubmitTest now Unparseable s) =
         Some (updateStats now (selectedSubjects s) (difficulty s)
                 (compute_percentage (compute_score (questions s) (answers s)) (length (questions s)))
                 (length (questions s)) [] usr)"
  using assms
  by (simp add: handleSubmitTest_user analyzeGaps_def initialResults_fields)

section \<open>Placement readiness\<close>

text \<open>
  Claim C8. \<open>placementReady\<close> is monotonic: when it is true of an account, it is true of
  the account that the progression update returns, for every score, difficulty and
  analysis; and it is true of the account held after \<^verbatim>\<open>handleSubmitTest\<close>, whether the
  gap analysis succeeds or fails.
\<close>

theorem placementReady_monotonic:
  assumes "placementReady usr"
  shows "placementReady (updateStats now subjs d p n found usr) \<and>
         (user s = Some usr \<longrightarrow>
            (\<exists>usr'. user (handleSubmitTest now reply s) = Some usr' \<and> placementReady usr'))"
  using assms
  by (simp add: updateStats_placementReady handleSubmitTest_user split: option.splits)

theorem placementReady_monotonic_witness:
  "placementReady ((newUser ''Asha'' ''asha@example.org'' ''pw'' STUDENT)\<lparr>placementReady := True\<rparr>) \<and>
   placementReady (updateStats ''2026-01-01'' [''DSA''] EXPERT (Num 40) 10 [''Graphs'']
     ((newUser ''Asha'' ''asha@example.org'' ''pw'' STUDENT)\<lparr>placementReady := True\<rparr>)) \<and>
   user (initial_app\<lparr>user :=
       Some ((newUser ''Asha'' ''asha@example.org'' ''pw'' STUDENT)\<lparr>placementReady := True\<rparr>)\<rparr>) =
     Some ((newUser ''Asha'' ''asha@example.org'' ''pw'' STUDENT)\<lparr>placementReady := True\<rparr>) \<and>
   (\<exists>usr'. user (handleSubmitTest ''2026-01-01'' Rejected (initial_app\<lparr>user :=
       Some ((newUser ''Asha'' ''asha@example.org'' ''pw'' STUDENT)\<lparr>placementReady := True\<rparr>)\<rparr>)) =
     Some usr' \<and> placementReady usr')"
proof -
  have h: "placementReady ((newUser ''Asha'' ''asha@example.org'' ''pw'' STUDENT)\<lparr>placementReady := True\<rparr>)"
    by simp
  show ?thesis
    using h placementReady_monotonic [OF h, of "''2026-01-01''" "[''DSA'']" EXPERT "Num 40" 10
        "[''Graphs'']"
        "initial_app\<lparr>user :=
           Some ((newUser ''Asha'' ''asha@example.org'' ''pw'' STUDENT)\<lparr>placementReady := True\<rparr>)\<rparr>"
        Rejected]
    by simp
qed

section \<open>Badges\<close>

text \<open>
  Claim C7. Badge granting is idempotent. When the account holds the badge of the
  difficulty at which the assessment is taken, a score of 100 leaves the badge list, the
  level and \<open>placementReady\<close> as they were; in particular an EXPERT account with all
  three badges keeps its badge list and its level. The update never duplicates a badge
  (a duplicate-free list stays so, for every score), and the same holds of the account
  held after \<^verbatim>\<open>handleSubmitTest\<close>.
\<close>

theorem badge_granting_idempotent:
  "(tier_badge d \<in> set (badges usr) \<longrightarrow>
      badges (updateStats now subjs d (Num 100) n found usr) = badges usr \<and>
      level (updateStats now subjs d (Num 100) n found usr) = level usr \<and>
      placementReady (updateStats now subjs d (Num 100) n found usr) = placementReady usr) \<and>
   (level usr = EXPERT \<and>
    set [''Beginner Champion'', ''Advanced Master'', ''Expert Legend''] \<subseteq> set (badges usr) \<longrightarrow>
      badges (updateStats now subjs EXPERT (Num 100) n found usr) = badges usr \<and>
      level (updateStats now subjs EXPERT (Num 100) n found usr) = EXPERT) \<and>
   (distinct (badges usr) \<longrightarrow> distinct (badges (updateStats now subjs d p n found usr))) \<and>
   (user s = Some usr \<and> tier_badge (difficulty s) \<in> set (badges usr) \<longrightarrow>
      (\<exists>usr'. user (handleSubmitTest now reply s) = Some usr' \<and>
              badges usr' = badges usr \<and> level usr' = level usr))"
proof (intro conjI impI)
  assume "tier_badge d \<in> set (badges usr)"
  then show "badges (updateStats now subjs d (Num 100) n found usr) = badges usr"
    and "level (updateStats now subjs d (Num 100) n found usr) = level usr"
    and "placementReady (updateStats now subjs d (Num 100) n found usr) = placementReady usr"
    by (simp_all add: updateStats_badge_held)
next
  assume "level usr = EXPERT \<and>
    set [''Beginner Champion'', ''Advanced Master'', ''Expert Legend''] \<subseteq> set (badges usr)"
  then show "badges (updateStats now subjs EXPERT (Num 100) n found usr) = badges usr"
    and "level (updateStats now subjs EXPERT (Num 100) n found usr) = EXPERT"
    using updateStats_expert_all_badges [of usr now subjs "Num 100" n found] by simp_all
next
  assume "distinct (badges usr)"
  then show "distinct (badges (updateStats now subjs d p n found usr))"
    by (rule updateStats_distinct_badges)
next
  assume "user s = Some usr \<and> tier_badge (difficulty s) \<in> set (badges usr)"
  then show "\<exists>usr'. user (handleSubmitTest now reply s) = Some usr' \<and>
              badges usr' = badges usr \<and> level usr' = level usr"
    using handleSubmitTest_badge_held [of s usr now reply] by simp
qed

theorem badge_granting_idempotent_witness:
  "tier_badge EXPERT \<in> set (badges legend_user) \<and>
   badges (updateStats ''2026-01-01'' [''OS''] EXPERT (Num 100) 10 [] legend_user) =
     [''Beginner Champion'', ''Advanced Master'', ''Expert Legend''] \<and>
   level (updateStats ''2026-01-01'' [''OS''] EXPERT (Num 100) 10 [] legend_user) = EXPERT \<and>
   level legend_user = EXPERT \<and>
   set [''Beginner Champion'', ''Advanced Master'', ''Expert Legend''] \<subseteq> set (badges legend_user) \<and>
   distinct (badges legend_user) \<and>
   distinct (badges (updateStats ''2026-01-01'' [''OS''] EXPERT (Num 100) 10 [] legend_user)) \<and>
   user legend_app = Some legend_user \<and>
   tier_badge (difficulty legend_app) \<in> set (badges legend_user) \<and>
   (\<exists>usr'. user (handleSubmitTest ''2026-01-01'' Rejected legend_app) = Some usr' \<and>
      badges usr' = badges legend_user \<and> level usr' = level legend_user)"
proof -
  have h: "tier_badge EXPERT \<in> set (badges legend_user)" "level legend_user = EXPERT"
    "set [''Beginner Champion'', ''Advanced Master'', ''Expert Legend''] \<subseteq> set (badges legend_user)"
    "distinct (badges legend_user)" "user legend_app = Some legend_user"
    "tier_badge (difficulty legend_app) \<in> set (badges legend_user)"
    "badges legend_user = [''Beginner Champion'', ''Advanced Master'', ''Expert Legend'']"
    by (simp_all add: legend_user_def legend_app_def tier_badge_def)
  show ?thesis
    using h badge_granting_idempotent [of EXPERT legend_user "''2026-01-01''" "[''OS'']" 10 "[]"
        "Num 100" legend_app Rejected]
    by simp
qed

section \<open>Raw score\<close>

text \<open>
  Claim C9. The raw score is the number of questions whose recorded answer equals the
  correct answer, a question with no recorded answer never counts, and the feedback entry
  of an unanswered question has no \<open>selectedAnswer\<close> and \<open>isCorrect\<close> false. The code
  counts the score so (\<open>compute_score_filter\<close>, \<open>compute_score_answered\<close>), but it reads
  \<^verbatim>\<open>answers[q.id]\<close> on a plain object. In a batch of 10 questions, 7 answered correctly
  and 3 left unanswered, one of these with the id \<^verbatim>\<open>constructor\<close>, the result has score
  7, total 10 and \<open>isCorrect\<close> false for the unanswered questions; the entry of the
  unanswered \<^verbatim>\<open>q8\<close> has no selected answer, but the entry of the unanswered
  \<^verbatim>\<open>constructor\<close> holds the member that the object inherits under this name.
\<close>

theorem unanswered_feedback_holds_inherited_member:
  "length (questions prototype_app) = 10 \<and>
   length [q\<leftarrow>questions prototype_app.
             answers prototype_app (id_q q) = Some (correctAnswer q)] = 7 \<and>
   length [q\<leftarrow>questions prototype_app. answers prototype_app (id_q q) = None] = 3 \<and>
   id_q (questions prototype_app ! 7) = ''q8'' \<and> answers prototype_app ''q8'' = None \<and>
   id_q (questions prototype_app ! 9) = ''constructor'' \<and>
   answers prototype_app ''constructor'' = None \<and>
   results (handleSubmitTest ''2026-01-01'' Rejected prototype_app) =
     Some (initialResults (questions prototype_app) (answers prototype_app)) \<and>
   score (initialResults (questions prototype_app) (answers prototype_app)) = 7 \<and>
   total (initialResults (questions prototype_app) (answers prototype_app)) = 10 \<and>
   selectedAnswer (feedback (initialResults (questions prototype_app) (answers prototype_app)) ! 7)
     = Undefined \<and>
   isCorrect (feedback (initialResults (questions prototype_app) (answers prototype_app)) ! 7)
     = False \<and>
   selectedAnswer (feedback (initialResults (questions prototype_app) (answers prototype_app)) ! 9)
     = Inherited ''constructor'' \<and>
   isCorrect (feedback (initialResults (questions prototype_app) (answers prototype_app)) ! 9)
     = False"
proof -
  have sc: "compute_score (questions prototype_app) (answers prototype_app) = 7"
    by (simp add: compute_score_filter prototype_app_def example_question_def)
  have len: "length (questions prototype_app) = 10"
    by (simp add: prototype_app_def)
  have res: "results (handleSubmitTest ''2026-01-01'' Rejected prototype_app) =
        Some (initialResults (questions prototype_app) (answers prototype_app))"
    using sc len by (simp add: handleSubmitTest_results analyzeGaps_Rejected initialResults_fields)
  have fb: "selectedAnswer (feedback (initialResults (questions prototype_app)
                (answers prototype_app)) ! 7) = Undefined"
    "selectedAnswer (feedback (initialResults (questions prototype_app)
                (answers prototype_app)) ! 9) = Inherited ''constructor''"
    "isCorrect (feedback (initialResults (questions prototype_app)
                (answers prototype_app)) ! 7) = False"
    "isCorrect (feedback (initialResults (questions prototype_app)
                (answers prototype_app)) ! 9) = False"
    by (simp_all add: initialResults_def prototype_app_def example_question_def
        get_property_def Object_prototype_names_def)
  have rest: "length [q\<leftarrow>questions prototype_app.
             answers prototype_app (id_q q) = Some (correctAnswer q)] = 7"
    "length [q\<leftarrow>questions prototype_app. answers prototype_app (id_q q) = None] = 3"
    "id_q (questions prototype_app ! 7) = ''q8''" "answers prototype_app ''q8'' = None"
    "id_q (questions prototype_app ! 9) = ''constructor''"
    "answers prototype_app ''constructor'' = None"
    by (simp_all add: prototype_app_def example_question_def)
  show ?thesis
    using sc len res fb rest by (simp add: initialResults_fields)
qed

section \<open>An empty question batch\<close>

text \<open>
  Claim C10. With no questions the percentage is \<^verbatim>\<open>Math.round((0 / 0) * 100)\<close>, which
  is \<^verbatim>\<open>NaN\<close> and so differs from 100: no badge is granted, the level and
  \<open>placementReady\<close> stay. The division is not guarded: score and total are both 0, so
  \<^verbatim>\<open>analyzeGaps\<close> returns without a request and the update runs, storing \<^verbatim>\<open>NaN\<close> as
  \<open>averageScore\<close> and \<open>highestScore\<close> and at the head of \<open>lastScores\<close>. The handler
  leaves the session's \<open>difficulty\<close> as it was.
\<close>

theorem empty_batch_corrupts_statistics:
  assumes "questions s = []" and "user s = Some usr"
  shows "compute_percentage (compute_score (questions s) (answers s)) (length (questions s)) = NaN \<and>
         NaN \<noteq> Num 100 \<and>
         (\<exists>usr'. user (handleSubmitTest now reply s) = Some usr' \<and>
            averageScore usr' = NaN \<and> highestScore usr' = NaN \<and>
            lastScores usr' = NaN # take 4 (lastScores usr) \<and>
            totalTests usr' = totalTests usr + 1 \<and>
            badges usr' = badges usr \<and> level usr' = level usr \<and>
            placementReady usr' = placementReady usr) \<and>
         difficulty (handleSubmitTest now reply s) = difficulty s"
proof -
  have p: "compute_percentage (compute_score (questions s) (answers s)) (length (questions s)) = NaN"
    using assms(1) by (simp add: compute_percentage_empty compute_score_Nil)
  have "score (initialResults (questions s) (answers s)) = total (initialResults (questions s) (answers s))"
    using assms(1) by (simp add: initialResults_fields compute_score_Nil)
  then obtain r where r: "analyzeGaps reply (initialResults (questions s) (answers s)) = Some r"
    by (simp add: analyzeGaps_perfect)
  have u: "user (handleSubmitTest now reply s) =
        Some (updateStats now (selectedSubjects s) (difficulty s) NaN (length (questions s))
                (weakAreas_r r) usr)"
    using assms(2) p r by (simp add: handleSubmitTest_user)
  show ?thesis
    using p u updateStats_NaN [of now "selectedSubjects s" "difficulty s" "length (questions s)" "weakAreas_r r" usr]
      updateStats_not_perfect [of NaN now "selectedSubjects s" "difficulty s" "length (questions s)" "weakAreas_r r" usr]
    by (simp add: updateStats_totalTests handleSubmitTest_difficulty)
qed

theorem empty_batch_corrupts_statistics_witness:
  "questions example_app = [] \<and> user example_app = Some example_user \<and>
   (\<exists>usr'. user (handleSubmitTest ''2026-01-01'' Rejected example_app) = Some usr' \<and>
      averageScore usr' = NaN \<and> highestScore usr' = NaN \<and> lastScores usr' = [NaN] \<and>
      totalTests usr' = 1 \<and> badges usr' = [] \<and> level usr' = BEGINNER \<and> \<not> placementReady usr') \<and>
   difficulty (handleSubmitTest ''2026-01-01'' Rejected example_app) = BEGINNER"
  using empty_batch_corrupts_statistics [of example_app example_user "''2026-01-01''" Rejected]
  by (simp add: example_app_def initial_app_def example_user_def newUser_def)

section \<open>The first perfect assessment\<close>

text \<open>
  Claim C6, as stated, fails: the progression logic consults the difficulty of the
  session, not the level of the account. An account of level BEGINNER with
  \<open>totalTests = 0\<close>, \<open>averageScore = 0\<close> and no badge, in a session whose difficulty is
  EXPERT, scores 100 out of 100 and is left with the one badge "Expert Legend", level
  BEGINNER and \<open>placementReady\<close>.
\<close>

theorem perfect_first_assessment_counterexample:
  "user expert_session_app = Some example_user \<and> level example_user = BEGINNER \<and>
   totalTests example_user = 0 \<and> averageScore example_user = Num 0 \<and>
   badges example_user = [] \<and> length (questions expert_session_app) = 100 \<and>
   compute_score (questions expert_session_app) (answers expert_session_app) = 100 \<and>
   map_option badges (user (handleSubmitTest ''2026-01-01'' Rejected expert_session_app)) =
     Some [''Expert Legend''] \<and>
   map_option level (user (handleSubmitTest ''2026-01-01'' Rejected expert_session_app)) =
     Some BEGINNER \<and>
   map_option placementReady (user (handleSubmitTest ''2026-01-01'' Rejected expert_session_app)) =
     Some True"
proof -
  have u: "user expert_session_app = Some example_user"
    by (simp add: expert_session_app_def perfect_app_def example_app_def)
  have a: "level example_user = BEGINNER" "totalTests example_user = 0"
    "averageScore example_user = Num 0" "badges example_user = []"
    by (simp_all add: example_user_def newUser_def)
  have q: "length (questions expert_session_app) = 100"
    "compute_score (questions expert_session_app) (answers expert_session_app) = 100"
    "difficulty expert_session_app = EXPERT"
    by (simp_all add: expert_session_app_def perfect_app_def compute_score_filter
        example_question_def)
  have p: "compute_percentage (compute_score (questions expert_session_app)
             (answers expert_session_app)) (length (questions expert_session_app)) = Num 100"
    using q compute_percentage_perfect [of 100] by simp
  have r: "analyzeGaps Rejected (initialResults (questions expert_session_app)
             (answers expert_session_app)) =
           Some ((initialResults (questions expert_session_app) (answers expert_session_app))
                   \<lparr>weakAreas_r := [], recommendations := []\<rparr>)"
    using q by (simp add: analyzeGaps_perfect initialResults_fields)
  have "user (handleSubmitTest ''2026-01-01'' Rejected expert_session_app) =
        Some (updateStats ''2026-01-01'' (selectedSubjects expert_session_app) EXPERT (Num 100)
                100 [] example_user)"
    using u p q r by (simp add: handleSubmitTest_user)
  then show ?thesis
    using u a q by (simp add: updateStats_def Let_def)
qed

text \<open>
  Claim C6, amended. For an account of level BEGINNER with \<open>totalTests = 0\<close>,
  \<open>averageScore = 0\<close> and no badge, an assessment taken at difficulty BEGINNER (the
  difficulty of the session) that scores 100 out of 100 questions leaves an account with
  \<open>totalTests = 1\<close>, \<open>averageScore = 100\<close>, the one badge "Beginner Champion" and level
  ADVANCED.
\<close>

theorem perfect_first_assessment:
  assumes "user s = Some usr" and "totalTests usr = 0" and "averageScore usr = Num 0"
    and "badges usr = []" and "level usr = BEGINNER" and "difficulty s = BEGINNER"
    and "length (questions s) = 100" and "compute_score (questions s) (answers s) = 100"
  shows "\<exists>usr'. user (handleSubmitTest now reply s) = Some usr' \<and> totalTests usr' = 1 \<and>
           averageScore usr' = Num 100 \<and> badges usr' = [''Beginner Champion''] \<and>
           level usr' = ADVANCED"
proof -
  let ?init = "initialResults (questions s) (answers s)"
  have p: "compute_percentage (compute_score (questions s) (answers s)) (length (questions s)) = Num 100"
    using assms(7,8) compute_percentage_perfect [of 100] by simp
  have "score ?init = total ?init"
    using assms(7,8) by (simp add: initialResults_fields)
  then have r: "analyzeGaps reply ?init = Some (?init\<lparr>weakAreas_r := [], recommendations := []\<rparr>)"
    by (rule analyzeGaps_perfect)
  have u: "user (handleSubmitTest now reply s) =
        Some (updateStats now (selectedSubjects s) BEGINNER (Num 100) 100 [] usr)"
    using assms(1,6,7) p r by (simp add: handleSubmitTest_user)
  have "averageScore (updateStats now (selectedSubjects s) BEGINNER (Num 100) 100 [] usr) = Num 100"
    using assms(2,3) round_half_up_of_int [of 100]
    by (simp add: updateStats_averageScore)
  moreover have "badges (updateStats now (selectedSubjects s) BEGINNER (Num 100) 100 [] usr) =
          [''Beginner Champion''] \<and>
        level (updateStats now (selectedSubjects s) BEGINNER (Num 100) 100 [] usr) = ADVANCED"
    using assms(4) by (simp add: updateStats_def Let_def)
  ultimately show ?thesis
    using u assms(2) by (simp add: updateStats_totalTests)
qed

theorem perfect_first_assessment_witness:
  "user perfect_app = Some example_user \<and> totalTests example_user = 0 \<and>
   averageScore example_user = Num 0 \<and> badges example_user = [] \<and>
   level example_user = BEGINNER \<and>
   difficulty perfect_app = BEGINNER \<and> length (questions perfect_app) = 100 \<and>
   compute_score (questions perfect_app) (answers perfect_app) = 100 \<and>
   (\<exists>usr'. user (handleSubmitTest ''2026-01-01'' Rejected perfect_app) = Some usr' \<and>
      totalTests usr' = 1 \<and> averageScore usr' = Num 100 \<and>
      badges usr' = [''Beginner Champion''] \<and> level usr' = ADVANCED)"
proof -
  have h1: "user perfect_app = Some example_user"
    by (simp add: perfect_app_def example_app_def)
  have h2: "totalTests example_user = 0" and h3: "averageScore example_user = Num 0"
    and h4: "badges example_user = []" and h5: "level example_user = BEGINNER"
    by (simp_all add: example_user_def newUser_def)
  have h6: "difficulty perfect_app = BEGINNER"
    by (simp add: perfect_app_def example_app_def initial_app_def)
  have h7: "length (questions perfect_app) = 100"
    by (simp add: perfect_app_def)
  have h8: "compute_score (questions perfect_app) (answers perfect_app) = 100"
    by (simp add: perfect_app_def compute_score_filter example_question_def)
  show ?thesis
    using perfect_first_assessment [OF h1 h2 h3 h4 h5 h6 h7 h8, of "''2026-01-01''" Rejected]
      h1 h2 h3 h4 h5 h6 h7 h8
    by simp
qed

section \<open>A failed gap analysis\<close>

text \<open>
  Claim C3. When the gap analysis fails, the session is to complete with the raw result
  and the progression update is to run as on the success path, with no weak area. The
  code does so when the reply does not parse, which \<^verbatim>\<open>analyzeGaps\<close> catches itself. It
  does not when the request is rejected: the update sits in the \<^verbatim>\<open>try\<close> block behind the
  awaited call, and the \<^verbatim>\<open>catch\<close> clause only stores the raw result. On the example (one
  question, answered wrongly) the rejected request leaves the account and the stored
  users as they were, with \<open>totalTests = 0\<close>; the reply that does not parse, and the
  analysis that finds no weak area, give \<open>totalTests = 1\<close>.
\<close>

theorem rejected_analysis_skips_update:
  "results (handleSubmitTest ''2026-01-01'' Rejected failing_app) =
     Some (initialResults (questions failing_app) (answers failing_app)) \<and>
   user (handleSubmitTest ''2026-01-01'' Rejected failing_app) = Some example_user \<and>
   map_option totalTests (user (handleSubmitTest ''2026-01-01'' Rejected failing_app)) = Some 0 \<and>
   coach_users (handleSubmitTest ''2026-01-01'' Rejected failing_app) = coach_users failing_app \<and>
   map_option totalTests (user (handleSubmitTest ''2026-01-01'' Unparseable failing_app)) =
     Some 1 \<and>
   map_option totalTests
     (user (handleSubmitTest ''2026-01-01''
        (Analysis \<lparr>score_g = None, total_g = None, feedback_g = None, weakAreas_g = Some [],
                    recommendations_g = Some []\<rparr>) failing_app)) = Some 1"
  by (simp add: handleSubmitTest_def Let_def analyzeGaps_def initialResults_def compute_score_def
      failing_app_def example_app_def initial_app_def example_question_def get_property_def
      updateStats_totalTests example_user_def newUser_def)

section \<open>Weak areas\<close>

lemma foldl_Set_insert_set: "set (foldl Set_insert acc xs) = set acc \<union> set xs"
  by (induction xs arbitrary: acc) (auto simp: Set_insert_def)

lemma foldl_Set_insert_distinct: "distinct acc \<Longrightarrow> distinct (foldl Set_insert acc xs)"
  by (induction xs arbitrary: acc) (auto simp: Set_insert_def)

lemma Set_insert_prefix: "\<exists>zs. Set_insert acc x = acc @ zs"
  by (cases "x \<in> set acc") (simp_all add: Set_insert_def)

lemma foldl_Set_insert_prefix: "\<exists>ys. foldl Set_insert acc xs = acc @ ys"
proof (induction xs arbitrary: acc)
  case Nil
  show ?case by simp
next
  case (Cons x xs)
  obtain ys where ys: "foldl Set_insert (Set_insert acc x) xs = Set_insert acc x @ ys"
    using Cons.IH [of "Set_insert acc x"] by (elim exE)
  obtain zs where zs: "Set_insert acc x = acc @ zs"
    using Set_insert_prefix [of acc x] by (elim exE)
  have "foldl Set_insert acc (x # xs) = acc @ (zs @ ys)"
    by (simp add: ys) (simp add: zs)
  then show ?case by (rule exI)
qed

lemma foldl_Set_insert_fresh:
  "distinct xs \<Longrightarrow> set acc \<inter> set xs = {} \<Longrightarrow> foldl Set_insert acc xs = acc @ xs"
  by (induction xs arbitrary: acc) (auto simp: Set_insert_def)

lemma Array_from_Set_set: "set (Array_from_Set xs) = set xs"
  by (simp add: Array_from_Set_def foldl_Set_insert_set)

lemma Array_from_Set_distinct: "distinct (Array_from_Set xs)"
  by (simp add: Array_from_Set_def foldl_Set_insert_distinct)

lemma Array_from_Set_append_distinct:
  assumes "distinct old"
  shows "\<exists>ys. Array_from_Set (old @ new) = old @ ys"
proof -
  have "foldl Set_insert [] old = old"
    using foldl_Set_insert_fresh [of old "[]"] assms by simp
  then have "Array_from_Set (old @ new) = foldl Set_insert old new"
    by (simp add: Array_from_Set_def)
  then show ?thesis
    using foldl_Set_insert_prefix [of old new] by simp
qed

lemma Array_from_Set_short:
  assumes "card (set old \<union> set new) \<le> 10"
  shows "take 10 (Array_from_Set (old @ new)) = Array_from_Set (old @ new)"
proof -
  have "length (Array_from_Set (old @ new)) = card (set (Array_from_Set (old @ new)))"
    by (simp add: distinct_card Array_from_Set_distinct)
  then have "length (Array_from_Set (old @ new)) \<le> 10"
    using assms by (simp add: Array_from_Set_set)
  then show ?thesis by simp
qed

lemma merge_props:
  fixes old found :: "'a list"
  defines "merged \<equiv> take 10 (Array_from_Set (old @ found))"
  shows "length merged \<le> 10 \<and> distinct merged \<and> set merged \<subseteq> set old \<union> set found \<and>
         (card (set old \<union> set found) \<le> 10 \<longrightarrow> set merged = set old \<union> set found) \<and>
         (distinct old \<longrightarrow> take (length old) merged = take 10 old)"
proof -
  have "set merged \<subseteq> set old \<union> set found"
    using set_take_subset [of 10 "Array_from_Set (old @ found)"]
    by (simp add: merged_def Array_from_Set_set)
  moreover have "set merged = set old \<union> set found" if "card (set old \<union> set found) \<le> 10"
    using Array_from_Set_short [OF that] by (simp add: merged_def Array_from_Set_set)
  moreover have "take (length old) merged = take 10 old" if d: "distinct old"
  proof -
    obtain ys where "Array_from_Set (old @ found) = old @ ys"
      using Array_from_Set_append_distinct [OF d, of found] by (elim exE)
    then show ?thesis
      by (cases "length old \<le> 10") (simp_all add: merged_def)
  qed
  ultimately show ?thesis
    by (simp add: merged_def Array_from_Set_distinct)
qed

lemma Array_from_Set_snoc: "Array_from_Set (xs @ [x]) = Set_insert (Array_from_Set xs) x"
  by (simp add: Array_from_Set_def)

lemma first_occurrences_snoc:
  "first_occurrences (xs @ [x]) =
     (if x \<in> set xs then first_occurrences xs else first_occurrences xs @ [x])"
  by (simp add: first_occurrences_def)

lemma set_first_occurrences: "set (first_occurrences xs) = set xs"
  by (simp add: first_occurrences_def)

lemma first_occurrences_distinct: "distinct xs \<Longrightarrow> first_occurrences xs = xs"
  by (simp add: first_occurrences_def distinct_remdups_id)

lemma Array_from_Set_first_occurrences: "Array_from_Set xs = first_occurrences xs"
proof (induction xs rule: rev_induct)
  case Nil
  show ?case by (simp add: Array_from_Set_def first_occurrences_def)
next
  case (snoc x xs)
  show ?case
    by (simp add: Array_from_Set_snoc first_occurrences_snoc snoc.IH Set_insert_def
        set_first_occurrences)
qed

lemma first_occurrences_append:
  "first_occurrences (old @ new) =
     first_occurrences old @ first_occurrences [x\<leftarrow>new. x \<notin> set old]"
proof (induction new rule: rev_induct)
  case Nil
  show ?case by (simp add: first_occurrences_def)
next
  case (snoc y ys)
  have "first_occurrences (old @ ys @ [y]) =
          (if y \<in> set (old @ ys) then first_occurrences (old @ ys)
           else first_occurrences (old @ ys) @ [y])"
    using first_occurrences_snoc [of "old @ ys" y] by simp
  then show ?case
    by (simp add: snoc.IH first_occurrences_snoc)
qed

text \<open>
  Claim C2, as stated, fails: the Set is built from the prior weak areas followed by the
  new ones and \<^verbatim>\<open>slice(0, 10)\<close> keeps its first ten elements, so with ten prior weak
  areas a new one is dropped and the list stays as it was.
\<close>

theorem weakAreas_new_displaces_old_counterexample:
  "weakAreas (updateStats ''2026-01-01'' [''DSA''] BEGINNER (Num 90) 10 [''Graphs''] ten_areas_user) =
     weakAreas ten_areas_user \<and>
   ''Graphs'' \<notin> set (weakAreas (updateStats ''2026-01-01'' [''DSA''] BEGINNER (Num 90) 10
                                  [''Graphs''] ten_areas_user))"
  by (simp add: updateStats_weakAreas ten_areas_user_def Array_from_Set_def Set_insert_def)

text \<open>
  Claim C2, amended. The updated weak-area list is the deduplicated concatenation of the
  prior weak areas followed by the new ones (each at its first occurrence), cut to its
  first 10 entries. It has at most 10 entries and no duplicates, and each entry is a prior
  or a new weak area; when the prior and the new weak areas together are at most 10, it
  holds all of them. When it is cut, the prior entries take priority: for a
  duplicate-free prior list it is the first 10 entries of the prior list followed by the
  new weak areas that the prior list does not hold.
\<close>

theorem weakAreas_merge:
  "weakAreas (updateStats now subjs d p n found usr) =
     take 10 (first_occurrences (weakAreas usr @ found)) \<and>
   length (weakAreas (updateStats now subjs d p n found usr)) \<le> 10 \<and>
   distinct (weakAreas (updateStats now subjs d p n found usr)) \<and>
   set (weakAreas (updateStats now subjs d p n found usr)) \<subseteq> set (weakAreas usr) \<union> set found \<and>
   (card (set (weakAreas usr) \<union> set found) \<le> 10 \<longrightarrow>
      set (weakAreas (updateStats now subjs d p n found usr)) = set (weakAreas usr) \<union> set found) \<and>
   (distinct (weakAreas usr) \<longrightarrow>
      weakAreas (updateStats now subjs d p n found usr) =
        take 10 (weakAreas usr @ first_occurrences [x\<leftarrow>found. x \<notin> set (weakAreas usr)]))"
proof -
  have 1: "weakAreas (updateStats now subjs d p n found usr) =
             take 10 (first_occurrences (weakAreas usr @ found))"
    by (simp add: updateStats_weakAreas Array_from_Set_first_occurrences)
  have 2: "weakAreas (updateStats now subjs d p n found usr) =
             take 10 (weakAreas usr @ first_occurrences [x\<leftarrow>found. x \<notin> set (weakAreas usr)])"
    if "distinct (weakAreas usr)"
    using that 1 first_occurrences_append [of "weakAreas usr" found]
    by (simp add: first_occurrences_distinct)
  have 3: "length (weakAreas (updateStats now subjs d p n found usr)) \<le> 10 \<and>
        distinct (weakAreas (updateStats now subjs d p n found usr)) \<and>
        set (weakAreas (updateStats now subjs d p n found usr)) \<subseteq> set (weakAreas usr) \<union> set found \<and>
        (card (set (weakAreas usr) \<union> set found) \<le> 10 \<longrightarrow>
           set (weakAreas (updateStats now subjs d p n found usr)) = set (weakAreas usr) \<union> set found)"
    using merge_props [of "weakAreas usr" found] by (simp add: updateStats_weakAreas)
  show ?thesis
    using 1 2 3 by (intro conjI impI) simp_all
qed

theorem weakAreas_merge_witness:
  "card (set (weakAreas (example_user\<lparr>weakAreas := [''Trees'', ''Paging'']\<rparr>)) \<union>
         set [''Paging'', ''Graphs'']) \<le> 10 \<and>
   distinct (weakAreas (example_user\<lparr>weakAreas := [''Trees'', ''Paging'']\<rparr>)) \<and>
   weakAreas (updateStats ''2026-01-01'' [''DSA''] BEGINNER (Num 90) 10 [''Paging'', ''Graphs'']
          (example_user\<lparr>weakAreas := [''Trees'', ''Paging'']\<rparr>)) =
     [''Trees'', ''Paging'', ''Graphs''] \<and>
   distinct (weakAreas ten_areas_user) \<and>
   weakAreas (updateStats ''2026-01-01'' [''DSA''] BEGINNER (Num 90) 10 [''Graphs'']
          ten_areas_user) = weakAreas ten_areas_user"
proof -
  let ?u = "example_user\<lparr>weakAreas := [''Trees'', ''Paging'']\<rparr>"
  have c: "card (set (weakAreas ?u) \<union> set [''Paging'', ''Graphs'']) \<le> 10"
    by (simp add: insert_commute)
  have d: "distinct (weakAreas ?u)" "distinct (weakAreas ten_areas_user)"
    "length (weakAreas ten_areas_user) = 10"
    by (simp_all add: ten_areas_user_def)
  have 1: "weakAreas (updateStats ''2026-01-01'' [''DSA''] BEGINNER (Num 90) 10
              [''Paging'', ''Graphs''] ?u) =
           take 10 (weakAreas ?u @
             first_occurrences [x\<leftarrow>[''Paging'', ''Graphs'']. x \<notin> set (weakAreas ?u)])"
    using d(1) weakAreas_merge [of "''2026-01-01''" "[''DSA'']" BEGINNER "Num 90" 10
        "[''Paging'', ''Graphs'']" ?u]
    by blast
  have 2: "weakAreas (updateStats ''2026-01-01'' [''DSA''] BEGINNER (Num 90) 10 [''Graphs'']
          ten_areas_user) =
           take 10 (weakAreas ten_areas_user @
             first_occurrences [x\<leftarrow>[''Graphs'']. x \<notin> set (weakAreas ten_areas_user)])"
    using d(2) weakAreas_merge [of "''2026-01-01''" "[''DSA'']" BEGINNER "Num 90" 10
        "[''Graphs'']" ten_areas_user]
    by blast
  have 3: "weakAreas (updateStats ''2026-01-01'' [''DSA''] BEGINNER (Num 90) 10 [''Graphs'']
          ten_areas_user) = weakAreas ten_areas_user"
    using 2 d(3) by simp
  have 4: "weakAreas (updateStats ''2026-01-01'' [''DSA''] BEGINNER (Num 90) 10
              [''Paging'', ''Graphs''] ?u) = [''Trees'', ''Paging'', ''Graphs'']"
    using 1 by (simp add: first_occurrences_def)
  show ?thesis
    using c d 3 4 by simp
qed

section \<open>Joining a contest\<close>



lemma elapsed_100_ms:
  "elapsed_minutes 1767261600100 (Num 1767261600000) =
     Num (7686143364045647 / 4611686018427387904)"
  by code_simp

lemma remaining_100_ms:
  "remaining_seconds example_contest (Num (7686143364045647 / 4611686018427387904)) =
     Num (3958186884412211 / 549755813888)"
  by code_simp



lemma handleJoinContest_accepted:
  assumes "\<not> js_lt (elapsed_minutes now start) (Num 0)"
    and "\<not> js_gt (elapsed_minutes now start) (Num (of_int (duration c)))"
  shows "handleJoinContest now start c s =
         s\<lparr> activeContest := Some c, contestProblems := problems c,
            contestTimeLeft := Math_round (remaining_seconds c (elapsed_minutes now start)),
            appState := Contest_active, tabSwitches := 0, currentProblemIndex := 0 \<rparr>"
  using assms by (simp add: handleJoinContest_def Let_def)

lemma join_100_ms:
  "handleJoinContest 1767261600100 (Num 1767261600000) example_contest s =
     s\<lparr> activeContest := Some example_contest, contestProblems := [],
        contestTimeLeft := Num 7200, appState := Contest_active, tabSwitches := 0,
        currentProblemIndex := 0 \<rparr>"
proof -
  have d: "duration example_contest = 120" "problems example_contest = []"
    by (simp_all add: example_contest_def)
  have "Math_round (remaining_seconds example_contest
          (elapsed_minutes 1767261600100 (Num 1767261600000))) = Num 7200"
    by (simp add: elapsed_100_ms remaining_100_ms round_half_up_def)
  then show ?thesis
    using handleJoinContest_accepted [of 1767261600100 "Num 1767261600000" example_contest s]
    by (simp add: elapsed_100_ms d js_gt_def)
qed




section \<open>Focus loss during a contest\<close>

lemma active_app_fields:
  "appState active_app = Contest_active" "listening active_app" "tabSwitches active_app = 0"
  "alerts active_app = []"
  by (simp_all add: active_app_def join_100_ms example_app_def initial_app_def)

text \<open>
  Claim C5. While a contest is active each focus loss is to add one to \<open>tabSwitches\<close>,
  with a warning of \<open>3 - count\<close> chances left below 3, and the count of 3 is to submit
  the contest exactly once: no later event may submit it again. The handlers add one per
  event and warn so, but they submit whenever the new count is 3 or more, and they stay
  attached until the render that follows the submission. After a join, the events blur,
  blur and \<^verbatim>\<open>visibilitychange\<close> (hidden) bring the count to 3 and submit; a blur that
  arrives before the render, as it does when the third event is a tab switch, which
  raises both events, brings the count to 4 and submits a second time. After the render
  the blur has no effect.
\<close>

theorem focus_loss_submits_twice:
  "submissions active_app = 0 \<and>
   tabSwitches (dispatch_all active_app [Blur, Blur]) = 2 \<and>
   alerts (dispatch_all active_app [Blur, Blur]) = [Warn_screen_off 2, Warn_screen_off 1] \<and>
   tabSwitches (dispatch_all active_app [Blur, Blur, Visibilitychange True]) = 3 \<and>
   submissions (dispatch_all active_app [Blur, Blur, Visibilitychange True]) = 1 \<and>
   tabSwitches (dispatch_all active_app [Blur, Blur, Visibilitychange True, Blur]) = 4 \<and>
   submissions (dispatch_all active_app [Blur, Blur, Visibilitychange True, Blur]) = 2 \<and>
   alerts (dispatch_all active_app [Blur, Blur, Visibilitychange True, Blur]) =
     [Warn_screen_off 2, Warn_screen_off 1, Max_tab_switches, Contest_submitted,
      Max_screen_off, Contest_submitted] \<and>
   tabSwitches (dispatch_all active_app [Blur, Blur, Visibilitychange True, Render, Blur]) = 3 \<and>
   submissions (dispatch_all active_app [Blur, Blur, Visibilitychange True, Render, Blur]) = 1"
  by (simp add: dispatch_all_def handleBlur_def handleVisibilityChange_def
      handleSubmitContest_def Let_def submissions_def active_app_fields)

section \<open>The running average\<close>

lemma complete_totalTests: "totalTests (complete usr a) = totalTests usr + 1"
  by (cases a) (simp add: updateStats_totalTests)

lemma complete_averageScore:
  assumes "averageScore usr = Num (of_int avg)"
  shows "averageScore (complete usr a) =
         Num (of_int (round_half_up
            (of_int (avg * int (totalTests usr) + percentage_of a) / of_int (int (totalTests usr) + 1))))"
proof (cases a)
  case (fields now subjs d pct n found)
  have "(1 :: real) + of_nat (totalTests usr) \<noteq> 0"
    by (simp add: add_nonneg_eq_0_iff)
  then show ?thesis
    using assms by (simp add: fields updateStats_averageScore add.commute)
qed

lemma complete_all_snoc: "complete_all usr (as @ [a]) = complete (complete_all usr as) a"
  by (simp add: complete_all_def)

lemma average_invariant:
  assumes "totalTests usr = 0" and "averageScore usr = Num 0"
  shows "\<exists>avg. totalTests (complete_all usr as) = length as \<and>
           averageScore (complete_all usr as) = Num (of_int avg) \<and>
           4 * \<bar>int (length as) * avg - sum_list (map percentage_of as)\<bar>
             \<le> int (length as) * (int (length as) + 1)"
proof (induction as rule: rev_induct)
  case Nil
  show ?case
    using assms by (simp add: complete_all_def)
next
  case (snoc a as)
  let ?u = "complete_all usr as"
  let ?N = "int (length as)"
  let ?S = "sum_list (map percentage_of as)"
  obtain avg where tot: "totalTests ?u = length as"
    and avg: "averageScore ?u = Num (of_int avg)"
    and bound: "4 * \<bar>?N * avg - ?S\<bar> \<le> ?N * (?N + 1)"
    using snoc.IH by (elim exE conjE)
  define x where "x = avg * ?N + percentage_of a"
  define avg' where "avg' = round_half_up (of_int x / of_int (?N + 1))"
  have tot': "totalTests (complete_all usr (as @ [a])) = length (as @ [a])"
    by (simp add: complete_all_snoc complete_totalTests tot)
  have avg'_eq: "averageScore (complete_all usr (as @ [a])) = Num (of_int avg')"
    using complete_averageScore [OF avg, of a] by (simp add: complete_all_snoc tot avg'_def x_def)
  define A where "A = (?N + 1) * avg' - x"
  define B where "B = ?N * avg - ?S"
  define K where "K = ?N * (?N + 1)"
  have step: "\<bar>2 * A\<bar> \<le> ?N + 1"
    unfolding avg'_def A_def by (rule round_half_up_div_bound) simp
  have bound': "4 * \<bar>B\<bar> \<le> K"
    using bound by (simp add: B_def K_def)
  have "4 * \<bar>A + B\<bar> \<le> 2 * (?N + 1) + K"
    using step bound' by arith
  moreover have "(?N + 1) * avg' - (?S + percentage_of a) = A + B"
    by (simp add: A_def B_def x_def algebra_simps)
  moreover have "2 * (?N + 1) + K = (?N + 1) * (?N + 1 + 1)"
    by (simp add: K_def algebra_simps)
  ultimately have "4 * \<bar>(?N + 1) * avg' - (?S + percentage_of a)\<bar> \<le> (?N + 1) * (?N + 1 + 1)"
    by simp
  then have "4 * \<bar>int (length (as @ [a])) * avg' - sum_list (map percentage_of (as @ [a]))\<bar>
                  \<le> int (length (as @ [a])) * (int (length (as @ [a])) + 1)"
    by (simp add: add.commute)
  then show ?case
    using tot' avg'_eq by (intro exI [of _ avg'] conjI)
qed

lemma average_after_one:
  assumes "totalTests usr = 0" and "averageScore usr = Num 0"
  shows "averageScore (complete_all usr [a]) = Num (of_int (round_half_up (mean (map percentage_of [a]))))"
  using assms complete_averageScore [of usr 0 a]
  by (simp add: complete_all_def mean_def)

lemma average_after_two:
  assumes "totalTests usr = 0" and "averageScore usr = Num 0"
  shows "averageScore (complete_all usr [a, b]) =
         Num (of_int (round_half_up (mean (map percentage_of [a, b]))))"
proof -
  have 1: "averageScore (complete usr a) = Num (of_int (percentage_of a))"
    using assms complete_averageScore [of usr 0 a] by (simp add: round_half_up_of_int)
  have 2: "totalTests (complete usr a) = 1"
    using assms by (simp add: complete_totalTests)
  show ?thesis
    using complete_averageScore [OF 1, of b] 2
    by (simp add: complete_all_def mean_def)
qed

text \<open>
  Claim C1, as stated, fails: each update rounds, and the next update starts from the
  rounded value. After the percentages 0, 0, 10, 0 the account has \<open>averageScore = 2\<close>,
  and the rounded mean of the four is 3.
\<close>

theorem running_average_counterexample:
  "averageScore (complete_all example_user
     [(''2026-01-01'', [''DSA''], BEGINNER, 0, 10, [''Trees'']),
      (''2026-01-02'', [''DSA''], BEGINNER, 0, 10, [''Trees'']),
      (''2026-01-03'', [''DSA''], BEGINNER, 10, 10, [''Trees'']),
      (''2026-01-04'', [''DSA''], BEGINNER, 0, 10, [''Trees''])]) = Num 2 \<and>
   round_half_up (mean [0, 0, 10, 0]) = 3"
  by (simp add: complete_all_def updateStats_averageScore updateStats_totalTests
      example_user_def newUser_def round_half_up_def mean_def)

text \<open>
  Claim C1, amended. Starting from \<open>averageScore = 0\<close> and \<open>totalTests = 0\<close>, after N
  assessments with integer percentages the \<open>averageScore\<close> produced by the incremental
  formula is an integer \<open>avg\<close> with \<open>4 * |N * avg - sum| \<le> N * (N + 1)\<close>, that is,
  within \<open>(N + 1) / 4\<close> of the mean; for \<open>N = 1\<close> and \<open>N = 2\<close> it equals the rounded
  mean.
\<close>

theorem running_average:
  assumes "totalTests usr = 0" and "averageScore usr = Num 0"
  shows "\<exists>avg. averageScore (complete_all usr as) = Num (of_int avg) \<and>
           4 * \<bar>int (length as) * avg - sum_list (map percentage_of as)\<bar>
             \<le> int (length as) * (int (length as) + 1) \<and>
           (length as = 1 \<or> length as = 2 \<longrightarrow>
              avg = round_half_up (mean (map percentage_of as)))"
proof -
  obtain avg where avg: "averageScore (complete_all usr as) = Num (of_int avg)"
    and bound: "4 * \<bar>int (length as) * avg - sum_list (map percentage_of as)\<bar>
                  \<le> int (length as) * (int (length as) + 1)"
    using average_invariant [OF assms, of as] by (elim exE conjE)
  have "avg = round_half_up (mean (map percentage_of as))" if "length as = 1 \<or> length as = 2"
  proof -
    have "averageScore (complete_all usr as) =
            Num (of_int (round_half_up (mean (map percentage_of as))))"
    proof (cases "length as = 1")
      case True
      then obtain a where "as = [a]"
        by (cases as) simp_all
      then show ?thesis
        using average_after_one [OF assms, of a] by simp
    next
      case False
      then have "length as = 2" using that by simp
      then obtain a b where "as = [a, b]"
        by (cases as; cases "tl as") simp_all
      then show ?thesis
        using average_after_two [OF assms, of a b] by simp
    qed
    then show ?thesis
      using avg by simp
  qed
  then show ?thesis
    using avg bound by (intro exI [of _ avg]) simp
qed

theorem running_average_witness:
  "totalTests example_user = 0 \<and> averageScore example_user = Num 0 \<and>
   averageScore (complete_all example_user
     [(''2026-01-01'', [''DSA''], BEGINNER, 70, 10, [''Trees'']),
      (''2026-01-02'', [''OS''], BEGINNER, 85, 20, [''Paging''])]) = Num 78"
proof -
  let ?as = "[(''2026-01-01'', [''DSA''], BEGINNER, 70, 10, [''Trees'']),
              (''2026-01-02'', [''OS''], BEGINNER, 85, 20, [''Paging''])] :: Assessment list"
  have h1: "totalTests example_user = 0" and h2: "averageScore example_user = Num 0"
    by (simp_all add: example_user_def newUser_def)
  have m: "round_half_up (mean (map percentage_of ?as)) = 78"
    by (simp add: mean_def round_half_up_def)
  obtain avg where "averageScore (complete_all example_user ?as) = Num (of_int avg)"
    and "length ?as = 1 \<or> length ?as = 2 \<longrightarrow> avg = round_half_up (mean (map percentage_of ?as))"
    using running_average [OF h1 h2, of ?as] by (elim exE conjE)
  then have "averageScore (complete_all example_user ?as) = Num 78"
    using m by simp
  then show ?thesis
    using h1 h2 by simp
qed

end
